theory Spec2Isabelle
  imports Main "HOL-Library.Sublist"
begin

section \<open>Persisted client session store (src/stores/auth.ts)\<close>

text \<open>
  The store's \<open>User\<close> interface and \<open>AuthState\<close>. A field that is \<open>T | null\<close> in
  the source is an \<open>option\<close> here. Zustand's \<open>set\<close> merges the given partial state into
  the current one, so every action is a record update of the fields it names.
\<close>

datatype role = BUYER | SELLER | ADMIN

record store_user =
  su_id :: string
  su_email :: string
  su_name :: "string option"
  su_role :: role

record auth_state =
  user :: "store_user option"
  token :: "string option"
  isAuthenticated :: bool
  isHydrated :: bool
  rememberedEmail :: "string option"

definition initial_auth_state :: auth_state where
  "initial_auth_state =
     \<lparr>user = None, token = None, isAuthenticated = False, isHydrated = False,
      rememberedEmail = None\<rparr>"

definition setAuth :: "store_user \<Rightarrow> string \<Rightarrow> auth_state \<Rightarrow> auth_state" where
  "setAuth u t s = s\<lparr>user := Some u, token := Some t, isAuthenticated := True\<rparr>"

definition logout :: "auth_state \<Rightarrow> auth_state" where
  "logout s = s\<lparr>user := None, token := None, isAuthenticated := False\<rparr>"

definition setHydrated :: "bool \<Rightarrow> auth_state \<Rightarrow> auth_state" where
  "setHydrated hydrated s = s\<lparr>isHydrated := hydrated\<rparr>"

definition setRememberedEmail :: "string option \<Rightarrow> auth_state \<Rightarrow> auth_state" where
  "setRememberedEmail e s = s\<lparr>rememberedEmail := e\<rparr>"

subsection \<open>Persistence and rehydration\<close>

text \<open>
  \<open>partialize\<close> selects the persisted fields. The callback returned by
  \<open>onRehydrateStorage\<close> receives the rehydrated state (or \<open>undefined\<close>) and the error
  (or \<open>undefined\<close>); it logs both and then runs
  \<open>useAuthStore.setState({ isHydrated: true })\<close> on the live store, whatever it was given.

  The persist middleware itself is the zustand library: \<open>rehydrate\<close> follows its
  contract. A failed read calls the callback with \<open>(undefined, error)\<close> and leaves the
  in-memory state alone; an empty storage keeps the current state; stored data is merged
  over the current state (shallow merge) before the callback runs.
\<close>

record persisted_state =
  p_user :: "store_user option"
  p_token :: "string option"
  p_isAuthenticated :: bool
  p_rememberedEmail :: "string option"

definition partialize :: "auth_state \<Rightarrow> persisted_state" where
  "partialize s =
     \<lparr>p_user = user s, p_token = token s, p_isAuthenticated = isAuthenticated s,
      p_rememberedEmail = rememberedEmail s\<rparr>"

definition merge_persisted :: "persisted_state \<Rightarrow> auth_state \<Rightarrow> auth_state" where
  "merge_persisted p s =
     s\<lparr>user := p_user p, token := p_token p, isAuthenticated := p_isAuthenticated p,
       rememberedEmail := p_rememberedEmail p\<rparr>"

datatype load_result = LoadFailed string | NothingStored | Stored persisted_state

definition onRehydrateStorage ::
  "auth_state option \<Rightarrow> string option \<Rightarrow> auth_state \<Rightarrow> auth_state" where
  "onRehydrateStorage state err live = live\<lparr>isHydrated := True\<rparr>"

definition rehydrate :: "load_result \<Rightarrow> auth_state \<Rightarrow> auth_state" where
  "rehydrate r s =
     (case r of
        LoadFailed e \<Rightarrow> onRehydrateStorage None (Some e) s
      | NothingStored \<Rightarrow> onRehydrateStorage (Some s) None s
      | Stored p \<Rightarrow>
          (let s' = merge_persisted p s in onRehydrateStorage (Some s') None s'))"

section \<open>Secure credential store (expo-secure-store)\<close>

text \<open>
  The secure store is an external key-value capability: set, get and delete by key, each of
  which may throw ("SecureStore might fail on some platforms", lib/api.ts). \<open>items\<close> is
  the stored content; \<open>rejects k\<close> says that the platform call on key \<open>k\<close> throws.
\<close>

record secure_store =
  items :: "string \<rightharpoonup> string"
  rejects :: "string \<Rightarrow> bool"

section \<open>API client (unnamed/part_000, imported as lib/api)\<close>

text \<open>
  \<open>ApiErrorResponse\<close> is the body of a failed response, \<open>ApiError\<close> the one error
  shape the client rejects with. An \<open>AxiosError\<close> carries the response (absent on a
  network failure or timeout) and its own message.
\<close>

record api_error_response =
  r_message :: "string option"
  r_code :: "string option"
  r_errors :: "(string \<times> string list) list option"

record error_response =
  er_status :: int
  er_data :: "api_error_response option"

record axios_error =
  ax_response :: "error_response option"
  ax_message :: string

record api_error =
  message :: string
  code :: string
  status :: int
  errors :: "(string \<times> string list) list option"

datatype failure = StorageError | ApiFailure api_error

definition setItemAsync :: "string \<Rightarrow> string \<Rightarrow> secure_store \<Rightarrow> failure + secure_store" where
  "setItemAsync k v ss =
     (if rejects ss k then Inl StorageError else Inr (ss\<lparr>items := (items ss)(k \<mapsto> v)\<rparr>))"

definition deleteItemAsync :: "string \<Rightarrow> secure_store \<Rightarrow> failure + secure_store" where
  "deleteItemAsync k ss =
     (if rejects ss k then Inl StorageError else Inr (ss\<lparr>items := (items ss)(k := None)\<rparr>))"

text \<open>
  JavaScript's \<open>a || b\<close> on a possibly missing string (\<open>undefined\<close> and the empty string
  are falsy) and on a possibly missing number (\<open>undefined\<close> and 0 are falsy).
\<close>

definition truthy :: "string option \<Rightarrow> bool" where
  "truthy a = (case a of None \<Rightarrow> False | Some s \<Rightarrow> s \<noteq> [])"

definition or_string :: "string option \<Rightarrow> string \<Rightarrow> string" where
  "or_string a b = (case a of None \<Rightarrow> b | Some s \<Rightarrow> if s = [] then b else s)"

definition or_number :: "int option \<Rightarrow> int \<Rightarrow> int" where
  "or_number a b = (case a of None \<Rightarrow> b | Some n \<Rightarrow> if n = 0 then b else n)"

text \<open>
  The cached queries of the TanStack query client: a query key with whether it is stale.
  \<open>invalidateQueries\<close> and \<open>removeQueries\<close> match every query whose key starts with the
  given key.
\<close>

type_synonym query_cache = "(string list \<times> bool) list"

definition authKeys_all :: "string list" where
  "authKeys_all = [''auth'']"

definition authKeys_session :: "string list" where
  "authKeys_session = authKeys_all @ [''session'']"

definition invalidateQueries :: "string list \<Rightarrow> query_cache \<Rightarrow> query_cache" where
  "invalidateQueries key qs = map (\<lambda>(k, stale). if prefix key k then (k, True) else (k, stale)) qs"

definition removeQueries :: "string list \<Rightarrow> query_cache \<Rightarrow> query_cache" where
  "removeQueries key qs = filter (\<lambda>(k, stale). \<not> prefix key k) qs"

text \<open>The process-wide state the auth code reads and writes.\<close>

record world =
  secure :: secure_store
  auth :: auth_state
  queries :: query_cache

text \<open>
  The response interceptor's error handler. On status 401 it deletes the two secure-store
  keys inside a \<open>try\<close> whose \<open>catch\<close> ignores the error (a failed first delete skips
  the second); it then rejects with the normalised error.
\<close>

definition normalize_error :: "axios_error \<Rightarrow> api_error" where
  "normalize_error error =
     (let data = (case ax_response error of None \<Rightarrow> None | Some r \<Rightarrow> er_data r) in
      \<lparr>message =
         or_string (case data of None \<Rightarrow> None | Some d \<Rightarrow> r_message d)
           (or_string (Some (ax_message error)) ''An unexpected error occurred''),
       code = or_string (case data of None \<Rightarrow> None | Some d \<Rightarrow> r_code d) ''UNKNOWN_ERROR'',
       status = or_number (map_option er_status (ax_response error)) 500,
       errors = (case data of None \<Rightarrow> None | Some d \<Rightarrow> r_errors d)\<rparr>)"

definition response_onRejected :: "axios_error \<Rightarrow> world \<Rightarrow> api_error \<times> world" where
  "response_onRejected error w =
     (let w' =
        (if map_option er_status (ax_response error) = Some 401 then
           (case deleteItemAsync ''swuva-auth-token'' (secure w) of
              Inl e \<Rightarrow> w
            | Inr ss1 \<Rightarrow>
                (case deleteItemAsync ''swuva-auth'' ss1 of
                   Inl e \<Rightarrow> w\<lparr>secure := ss1\<rparr>
                 | Inr ss2 \<Rightarrow> w\<lparr>secure := ss2\<rparr>))
         else w)
      in (normalize_error error, w'))"

text \<open>
  What axios hands to the response interceptor: a fulfilled response (status and data) goes
  through the success handler, which returns it as it is; a rejected request goes through
  the error handler. \<open>api_request\<close> is \<open>api.get\<close> / \<open>api.post\<close> seen from the caller,
  who destructures \<open>data\<close>. The request interceptor only adds headers to the outgoing
  request and changes no state; it has no part in the model.
\<close>

datatype 'a axios_outcome = Fulfilled int 'a | Rejected axios_error

definition api_request :: "'a axios_outcome \<Rightarrow> world \<Rightarrow> (api_error + 'a) \<times> world" where
  "api_request out w =
     (case out of
        Fulfilled st d \<Rightarrow> (Inr d, w)
      | Rejected error \<Rightarrow> (case response_onRejected error w of (e, w') \<Rightarrow> (Inl e, w')))"

section \<open>Auth service (features/auth/services/auth.service.ts)\<close>

record api_user =
  u_id :: string
  u_email :: string
  u_name :: "string option"
  u_role :: role
  u_emailVerified :: bool
  u_image :: "string option"
  u_createdAt :: string
  u_updatedAt :: string

record session =
  sess_id :: string
  sess_userId :: string
  sess_expiresAt :: string
  sess_token :: string

text \<open>
  \<open>SignInResponse\<close>, \<open>VerifyOTPResponse\<close> and \<open>AuthSession\<close> have one shape. The
  hooks test \<open>data.user\<close> and \<open>data.session?.token\<close> before use, so both parts may be
  missing at run time.
\<close>

record auth_response =
  resp_user :: "api_user option"
  resp_session :: "session option"

definition signIn :: "auth_response axios_outcome \<Rightarrow> world \<Rightarrow> (api_error + auth_response) \<times> world" where
  "signIn out w = api_request out w"

definition verifyEmailOTP :: "auth_response axios_outcome \<Rightarrow> world \<Rightarrow> (api_error + auth_response) \<times> world" where
  "verifyEmailOTP out w = api_request out w"

definition signInWithOTP :: "auth_response axios_outcome \<Rightarrow> world \<Rightarrow> (api_error + auth_response) \<times> world" where
  "signInWithOTP out w = api_request out w"

definition signOut :: "unit axios_outcome \<Rightarrow> world \<Rightarrow> (api_error + unit) \<times> world" where
  "signOut out w = api_request out w"

text \<open>
  \<open>getSession\<close> wraps the request in \<open>try\<close>/\<open>catch\<close>; the \<open>catch\<close> block returns
  \<open>null\<close> for whatever was thrown.
\<close>

definition getSession ::
  "auth_response axios_outcome \<Rightarrow> world \<Rightarrow> (api_error + auth_response option) \<times> world" where
  "getSession out w =
     (case api_request out w of
        (Inr d, w') \<Rightarrow> (Inr (Some d), w')
      | (Inl error, w') \<Rightarrow> (Inr None, w'))"

section \<open>Auth hooks (features/auth/hooks/useAuth.ts)\<close>

definition response_token :: "auth_response \<Rightarrow> string option" where
  "response_token data = map_option sess_token (resp_session data)"

definition to_store_user :: "api_user \<Rightarrow> store_user" where
  "to_store_user u = \<lparr>su_id = u_id u, su_email = u_email u, su_name = u_name u, su_role = u_role u\<rparr>"

text \<open>
  The \<open>onSuccess\<close> handlers. An \<open>await\<close>ed secure-store call that throws ends the
  handler there (\<open>Inl\<close>), before any later statement runs.
\<close>

definition useSignIn_onSuccess :: "auth_response \<Rightarrow> world \<Rightarrow> failure + world" where
  "useSignIn_onSuccess data w =
     (case (case response_token data of
              Some t \<Rightarrow>
                if truthy (Some t) then setItemAsync ''swuva-auth-token'' t (secure w)
                else Inr (secure w)
            | None \<Rightarrow> Inr (secure w)) of
        Inl e \<Rightarrow> Inl e
      | Inr ss \<Rightarrow>
          (let w1 = w\<lparr>secure := ss\<rparr>;
               w2 = (case resp_user data of
                       Some u \<Rightarrow>
                         w1\<lparr>auth := setAuth (to_store_user u) (or_string (response_token data) [])
                                      (auth w1)\<rparr>
                     | None \<Rightarrow> w1)
           in Inr (w2\<lparr>queries := invalidateQueries authKeys_session (queries w2)\<rparr>)))"

definition useVerifyEmailOTP_onSuccess :: "auth_response \<Rightarrow> world \<Rightarrow> failure + world" where
  "useVerifyEmailOTP_onSuccess data w =
     (case (case response_token data of
              Some t \<Rightarrow>
                if truthy (Some t) then setItemAsync ''swuva-auth-token'' t (secure w)
                else Inr (secure w)
            | None \<Rightarrow> Inr (secure w)) of
        Inl e \<Rightarrow> Inl e
      | Inr ss \<Rightarrow>
          (let w1 = w\<lparr>secure := ss\<rparr>;
               w2 = (case resp_user data of
                       Some u \<Rightarrow>
                         w1\<lparr>auth := setAuth (to_store_user u) (or_string (response_token data) [])
                                      (auth w1)\<rparr>
                     | None \<Rightarrow> w1)
           in Inr (w2\<lparr>queries := invalidateQueries authKeys_session (queries w2)\<rparr>)))"

definition useSignInWithOTP_onSuccess :: "auth_response \<Rightarrow> world \<Rightarrow> failure + world" where
  "useSignInWithOTP_onSuccess data w =
     (case (case response_token data of
              Some t \<Rightarrow>
                if truthy (Some t) then setItemAsync ''swuva-auth-token'' t (secure w)
                else Inr (secure w)
            | None \<Rightarrow> Inr (secure w)) of
        Inl e \<Rightarrow> Inl e
      | Inr ss \<Rightarrow>
          (let w1 = w\<lparr>secure := ss\<rparr>;
               w2 = (case resp_user data of
                       Some u \<Rightarrow>
                         w1\<lparr>auth := setAuth (to_store_user u) (or_string (response_token data) [])
                                      (auth w1)\<rparr>
                     | None \<Rightarrow> w1)
           in Inr (w2\<lparr>queries := invalidateQueries authKeys_session (queries w2)\<rparr>)))"

text \<open>
  \<open>useSignOut\<close>: \<open>onSuccess\<close> and \<open>onError\<close> have the same three statements.
\<close>

definition useSignOut_onSuccess :: "world \<Rightarrow> failure + world" where
  "useSignOut_onSuccess w =
     (case deleteItemAsync ''swuva-auth-token'' (secure w) of
        Inl e \<Rightarrow> Inl e
      | Inr ss \<Rightarrow>
          Inr (w\<lparr>secure := ss, auth := logout (auth w),
                 queries := removeQueries authKeys_all (queries w)\<rparr>))"

definition useSignOut_onError :: "world \<Rightarrow> failure + world" where
  "useSignOut_onError w =
     (case deleteItemAsync ''swuva-auth-token'' (secure w) of
        Inl e \<Rightarrow> Inl e
      | Inr ss \<Rightarrow>
          Inr (w\<lparr>secure := ss, auth := logout (auth w),
                 queries := removeQueries authKeys_all (queries w)\<rparr>))"

text \<open>
  A mutation runs its \<open>mutationFn\<close> and then \<open>onSuccess\<close> with the data, or \<open>onError\<close>
  when the function throws; a mutation whose function threw ends in error with what was
  thrown, also when \<open>onError\<close> completes. When \<open>onSuccess\<close> throws, the query library
  passes that error to \<open>onError\<close> (if there is one) and the mutation ends in error. The
  result is the error the mutation ended with, if any, and the world it leaves. A handler
  that throws does so at its first statement, before it wrote anything.
\<close>

definition useSignIn_mutate :: "auth_response axios_outcome \<Rightarrow> world \<Rightarrow> failure option \<times> world" where
  "useSignIn_mutate out w =
     (case signIn out w of
        (Inr data, w') \<Rightarrow>
          (case useSignIn_onSuccess data w' of Inl f \<Rightarrow> (Some f, w') | Inr w'' \<Rightarrow> (None, w''))
      | (Inl error, w') \<Rightarrow> (Some (ApiFailure error), w'))"

definition useVerifyEmailOTP_mutate :: "auth_response axios_outcome \<Rightarrow> world \<Rightarrow> failure option \<times> world" where
  "useVerifyEmailOTP_mutate out w =
     (case verifyEmailOTP out w of
        (Inr data, w') \<Rightarrow>
          (case useVerifyEmailOTP_onSuccess data w' of Inl f \<Rightarrow> (Some f, w') | Inr w'' \<Rightarrow> (None, w''))
      | (Inl error, w') \<Rightarrow> (Some (ApiFailure error), w'))"

definition useSignInWithOTP_mutate :: "auth_response axios_outcome \<Rightarrow> world \<Rightarrow> failure option \<times> world" where
  "useSignInWithOTP_mutate out w =
     (case signInWithOTP out w of
        (Inr data, w') \<Rightarrow>
          (case useSignInWithOTP_onSuccess data w' of Inl f \<Rightarrow> (Some f, w') | Inr w'' \<Rightarrow> (None, w''))
      | (Inl error, w') \<Rightarrow> (Some (ApiFailure error), w'))"

definition useSignOut_mutate :: "unit axios_outcome \<Rightarrow> world \<Rightarrow> failure option \<times> world" where
  "useSignOut_mutate out w =
     (case signOut out w of
        (Inr u, w') \<Rightarrow>
          (case useSignOut_onSuccess w' of
             Inr w'' \<Rightarrow> (None, w'')
           | Inl f \<Rightarrow>
               (case useSignOut_onError w' of
                  Inl f' \<Rightarrow> (Some f', w')
                | Inr w'' \<Rightarrow> (Some f, w'')))
      | (Inl error, w') \<Rightarrow>
          (case useSignOut_onError w' of
             Inl f \<Rightarrow> (Some f, w')
           | Inr w'' \<Rightarrow> (Some (ApiFailure error), w'')))"

section \<open>Splash screen navigation (app/splash.tsx)\<close>

text \<open>
  The splash screen holds \<open>isAnimationComplete\<close> and the ref \<open>hasNavigatedRef\<close>, and
  selects \<open>isAuthenticated\<close> and \<open>isHydrated\<close> from the store. \<open>replaced\<close> records the
  \<open>router.replace\<close> calls, one for each run of \<open>navigate\<close>.

  \<open>navigate\<close> reads the onboarding flag from AsyncStorage only when the user is not
  authenticated; a failed read is ignored and leads to the onboarding route.
\<close>

datatype route = Tabs | Login | Onboarding

datatype route_group = AuthGroup | TabsGroup | OnboardingGroup | SplashGroup

record splash =
  isAnimationComplete :: bool
  hasNavigatedRef :: bool
  sp_isAuthenticated :: bool
  sp_isHydrated :: bool
  replaced :: "route list"

definition splash_initial :: splash where
  "splash_initial =
     \<lparr>isAnimationComplete = False, hasNavigatedRef = False, sp_isAuthenticated = False,
      sp_isHydrated = False, replaced = []\<rparr>"

definition navigate :: "bool \<Rightarrow> failure + string option \<Rightarrow> route" where
  "navigate isAuth onboardingCompleted =
     (if isAuth then Tabs
      else (case onboardingCompleted of
              Inr (Some v) \<Rightarrow> if v = ''true'' then Login else Onboarding
            | Inr None \<Rightarrow> Onboarding
            | Inl e \<Rightarrow> Onboarding))"

definition splash_effect :: "failure + string option \<Rightarrow> splash \<Rightarrow> splash" where
  "splash_effect stored s =
     (if \<not> isAnimationComplete s \<or> \<not> sp_isHydrated s \<or> hasNavigatedRef s then s
      else s\<lparr>hasNavigatedRef := True,
             replaced := replaced s @ [navigate (sp_isAuthenticated s) stored]\<rparr>)"

text \<open>
  React re-runs the effect after a render in which one of its dependencies
  \<open>[isAnimationComplete, isHydrated, isAuthenticated, router]\<close> changed. The current route
  group is not read by the component, so its change re-runs nothing.
\<close>

datatype splash_event =
  AnimationComplete
  | StoreHydrated bool
  | StoreAuthenticated bool
  | RouteGroupChanged route_group

definition splash_deps :: "splash \<Rightarrow> bool \<times> bool \<times> bool" where
  "splash_deps s = (isAnimationComplete s, sp_isHydrated s, sp_isAuthenticated s)"

definition splash_update :: "splash_event \<Rightarrow> splash \<Rightarrow> splash" where
  "splash_update e s =
     (case e of
        AnimationComplete \<Rightarrow> s\<lparr>isAnimationComplete := True\<rparr>
      | StoreHydrated b \<Rightarrow> s\<lparr>sp_isHydrated := b\<rparr>
      | StoreAuthenticated b \<Rightarrow> s\<lparr>sp_isAuthenticated := b\<rparr>
      | RouteGroupChanged g \<Rightarrow> s)"

definition splash_step :: "failure + string option \<Rightarrow> splash_event \<Rightarrow> splash \<Rightarrow> splash" where
  "splash_step stored e s =
     (let s' = splash_update e s
      in if splash_deps s' = splash_deps s then s' else splash_effect stored s')"

fun splash_run :: "failure + string option \<Rightarrow> splash_event list \<Rightarrow> splash \<Rightarrow> splash" where
  "splash_run stored [] s = s"
| "splash_run stored (e # es) s = splash_run stored es (splash_step stored e s)"

text \<open>The component mounts with the initial values and runs the effect once.\<close>

definition splash_mount :: "failure + string option \<Rightarrow> splash" where
  "splash_mount stored = splash_effect stored splash_initial"

section \<open>OTP input (components/auth/OTPInput.tsx)\<close>

text \<open>
  \<open>value.split('')\<close> followed by an assignment at \<open>index\<close> and \<open>join('')\<close>: inside
  the string the character is replaced; beyond its end JavaScript extends the array with
  holes, which \<open>join\<close> prints as nothing, so the text is appended. The text assigned is a
  digit, or the empty string on backspace.
\<close>

definition is_digit :: "char \<Rightarrow> bool" where
  "is_digit c = (c \<in> set ''0123456789'')"

definition last_digit :: "string \<Rightarrow> string" where
  "last_digit text = (let ds = filter is_digit text in if ds = [] then [] else [last ds])"

definition set_slot :: "string \<Rightarrow> nat \<Rightarrow> string \<Rightarrow> string" where
  "set_slot v index x =
     (if index < length v then take index v @ x @ drop (Suc index) v else v @ x)"

definition handleDigitChange :: "nat \<Rightarrow> string \<Rightarrow> string \<Rightarrow> nat \<Rightarrow> string option" where
  "handleDigitChange len v text index =
     (let digit = last_digit text
      in if digit \<noteq> [] then Some (take len (set_slot v index digit)) else None)"

definition handleKeyPress :: "string \<Rightarrow> string \<Rightarrow> nat \<Rightarrow> string option" where
  "handleKeyPress v key index =
     (if key = ''Backspace'' then
        (if index < length v then Some (set_slot v index [])
         else if index > 0 then Some (set_slot v (index - 1) [])
         else None)
      else None)"

section \<open>OTP verification screen (unnamed/part_012, the route /(auth)/verify-otp)\<close>

text \<open>
  The screen's state: the \<open>useState\<close> values, whether the interval behind \<open>timerRef\<close>
  is running, the \<open>isPending\<close> flags of the two mutations, whether the 300 ms timeout of the
  auto-verify effect is armed, and what the screen has called so far.

  The callbacks and the rendered tree belong to the last committed render: \<open>handleVerify\<close>
  and \<open>OTPInput\<close> read the \<open>otp\<close> of that render, \<open>handleOtpChange\<close> its \<open>error\<close>,
  \<open>handleResend\<close> its \<open>canResend\<close> and \<open>isPending\<close>, and the \<open>disabled\<close> props its
  \<open>isPending\<close>. The \<open>seen_\<close> fields hold these values; they change only when the screen
  renders again.
\<close>

definition OTP_LENGTH :: nat where
  "OTP_LENGTH = 6"

definition RESEND_COOLDOWN :: int where
  "RESEND_COOLDOWN = 60"

record otp_screen =
  otp :: string
  otp_error :: "string option"
  countdown :: int
  canResend :: bool
  timerRunning :: bool
  verifyPending :: bool
  resendPending :: bool
  autoVerifyTimeout :: bool
  seen_otp :: string
  seen_error :: "string option"
  seen_canResend :: bool
  seen_verifyPending :: bool
  seen_resendPending :: bool
  verifyCalls :: "(string \<times> string) list"
  resendCalls :: "string list"
  routerReplaced :: bool
  mounted :: bool

definition otp_initial :: otp_screen where
  "otp_initial =
     \<lparr>otp = [], otp_error = None, countdown = RESEND_COOLDOWN, canResend = False,
      timerRunning = False, verifyPending = False, resendPending = False,
      autoVerifyTimeout = False, seen_otp = [], seen_error = None, seen_canResend = False,
      seen_verifyPending = False, seen_resendPending = False, verifyCalls = [],
      resendCalls = [], routerReplaced = False, mounted = True\<rparr>"

definition startCountdown :: "otp_screen \<Rightarrow> otp_screen" where
  "startCountdown s = s\<lparr>countdown := RESEND_COOLDOWN, canResend := False, timerRunning := True\<rparr>"

text \<open>The interval's callback: a functional update of \<open>countdown\<close>.\<close>

definition tick :: "otp_screen \<Rightarrow> otp_screen" where
  "tick s =
     (if countdown s \<le> 1 then s\<lparr>timerRunning := False, canResend := True, countdown := 0\<rparr>
      else s\<lparr>countdown := countdown s - 1\<rparr>)"

definition handleOtpChange :: "string \<Rightarrow> otp_screen \<Rightarrow> otp_screen" where
  "handleOtpChange v s =
     (let s' = s\<lparr>otp := v\<rparr> in if seen_error s \<noteq> None then s'\<lparr>otp_error := None\<rparr> else s')"

text \<open>
  \<open>handleVerify\<close> tests the length of the code and nothing else: it does not look at
  \<open>verifyOTP.isPending\<close>. Each call of \<open>verifyOTP.mutate\<close> starts a request.
\<close>

definition handleVerify :: "string \<Rightarrow> otp_screen \<Rightarrow> otp_screen" where
  "handleVerify email s =
     (if length (seen_otp s) \<noteq> OTP_LENGTH
      then s\<lparr>otp_error := Some ''Please enter the complete verification code''\<rparr>
      else s\<lparr>verifyCalls := verifyCalls s @ [(email, seen_otp s)], verifyPending := True\<rparr>)"

definition handleResend :: "string \<Rightarrow> otp_screen \<Rightarrow> otp_screen" where
  "handleResend email s =
     (if \<not> seen_canResend s \<or> seen_resendPending s then s
      else s\<lparr>resendCalls := resendCalls s @ [email], resendPending := True\<rparr>)"

text \<open>
  The auto-verify effect runs when a render is committed: its cleanup clears the timeout of
  the previous run, and the new run arms one when, in that render, the code is complete,
  no verification is pending and no error is shown. \<open>handleVerify\<close> is among the effect's
  dependencies and is a new function in every render (it depends on the object
  \<open>useMutation\<close> returns), so the effect runs at every render.
\<close>

definition autoVerify_effect :: "otp_screen \<Rightarrow> otp_screen" where
  "autoVerify_effect s =
     s\<lparr>autoVerifyTimeout :=
         (length (seen_otp s) = OTP_LENGTH \<and> \<not> seen_verifyPending s \<and> seen_error s = None)\<rparr>"

definition render :: "otp_screen \<Rightarrow> otp_screen" where
  "render s =
     autoVerify_effect
       (s\<lparr>seen_otp := otp s, seen_error := otp_error s, seen_canResend := canResend s,
          seen_verifyPending := verifyPending s, seen_resendPending := resendPending s\<rparr>)"

text \<open>
  What can happen to a mounted screen. In the rendered tree the inputs are not editable and
  the Continue button is disabled while the verification is pending
  (\<open>disabled={isLoading}\<close>); the button is also disabled for an incomplete code, and the
  Resend button is there only when \<open>canResend\<close> holds and is disabled while the resend is
  pending. A settled verification carries the error message, or nothing on success; a
  settled resend says whether it succeeded. An event changes the state; the screen shows
  the change, and its callbacks and its timeout follow it, from the next \<open>Render\<close> on.
  After a successful verification the screen calls \<open>router.replace\<close>; leaving the screen
  is the separate event \<open>Unmounted\<close>, which clears the interval and the timeout.
\<close>

datatype otp_event =
  DigitTyped string nat
  | KeyPressed string nat
  | TimeoutFired
  | ContinuePressed
  | ResendPressed
  | Tick
  | VerifySettled "string option"
  | ResendSettled bool
  | Render
  | Unmounted

definition otp_handle :: "string \<Rightarrow> otp_event \<Rightarrow> otp_screen \<Rightarrow> otp_screen" where
  "otp_handle email e s =
     (case e of
        DigitTyped text index \<Rightarrow>
          (if seen_verifyPending s then s
           else (case handleDigitChange OTP_LENGTH (seen_otp s) text index of
                   Some v \<Rightarrow> handleOtpChange v s
                 | None \<Rightarrow> s))
      | KeyPressed key index \<Rightarrow>
          (if seen_verifyPending s then s
           else (case handleKeyPress (seen_otp s) key index of
                   Some v \<Rightarrow> handleOtpChange v s
                 | None \<Rightarrow> s))
      | TimeoutFired \<Rightarrow>
          (if autoVerifyTimeout s then handleVerify email (s\<lparr>autoVerifyTimeout := False\<rparr>) else s)
      | ContinuePressed \<Rightarrow>
          (if seen_verifyPending s \<or> length (seen_otp s) \<noteq> OTP_LENGTH then s
           else handleVerify email s)
      | ResendPressed \<Rightarrow>
          (if seen_canResend s \<and> \<not> seen_resendPending s then handleResend email s else s)
      | Tick \<Rightarrow> (if timerRunning s then tick s else s)
      | VerifySettled r \<Rightarrow>
          (case r of
             None \<Rightarrow> s\<lparr>verifyPending := False, routerReplaced := True\<rparr>
           | Some msg \<Rightarrow> s\<lparr>verifyPending := False, otp_error := Some msg\<rparr>)
      | ResendSettled ok \<Rightarrow>
          (if ok then (startCountdown s)\<lparr>otp := [], otp_error := None, resendPending := False\<rparr>
           else s\<lparr>resendPending := False\<rparr>)
      | Render \<Rightarrow> render s
      | Unmounted \<Rightarrow> s\<lparr>mounted := False, timerRunning := False, autoVerifyTimeout := False\<rparr>)"

definition otp_step :: "string \<Rightarrow> otp_event \<Rightarrow> otp_screen \<Rightarrow> otp_screen" where
  "otp_step email e s = (if mounted s then otp_handle email e s else s)"

fun otp_run :: "string \<Rightarrow> otp_event list \<Rightarrow> otp_screen \<Rightarrow> otp_screen" where
  "otp_run email [] s = s"
| "otp_run email (e # es) s = otp_run email es (otp_step email e s)"

text \<open>Mounting runs \<open>startCountdown\<close> and commits the first render.\<close>

definition otp_mount :: otp_screen where
  "otp_mount = render (startCountdown otp_initial)"

text \<open>The two states of the resend countdown, read off the screen state.\<close>

datatype countdown_state = COUNTING int | READY

definition countdown_view :: "otp_screen \<Rightarrow> countdown_state" where
  "countdown_view s = (if canResend s then READY else COUNTING (countdown s))"

section \<open>Forgot-password screen (app/(auth)/forgot-password.tsx)\<close>

text \<open>
  A character is a UTF-16 code unit below 256 (Latin-1). \<open>trim\<close> removes white space
  and line terminators at both ends: in this range TAB, LF, VT, FF, CR, the space and the
  no-break space U+00A0. \<open>toLowerCase\<close> maps A to Z and the Latin-1 capitals U+00C0 to
  U+00DE (but not the multiplication sign U+00D7) to the letter 32 code units up.
  \<open>includes_str\<close> is \<open>String.prototype.includes\<close>.
\<close>

definition is_space :: "char \<Rightarrow> bool" where
  "is_space c =
     (c \<in> set [CHR 0x09, CHR 0x0A, CHR 0x0B, CHR 0x0C, CHR 0x0D, CHR 0x20, CHR 0xA0])"

definition trim :: "string \<Rightarrow> string" where
  "trim s = rev (dropWhile is_space (rev (dropWhile is_space s)))"

definition upper_chars :: string where
  "upper_chars = ''ABCDEFGHIJKLMNOPQRSTUVWXYZ'' @
     [CHR 0xC0, CHR 0xC1, CHR 0xC2, CHR 0xC3, CHR 0xC4, CHR 0xC5, CHR 0xC6, CHR 0xC7,
      CHR 0xC8, CHR 0xC9, CHR 0xCA, CHR 0xCB, CHR 0xCC, CHR 0xCD, CHR 0xCE, CHR 0xCF,
      CHR 0xD0, CHR 0xD1, CHR 0xD2, CHR 0xD3, CHR 0xD4, CHR 0xD5, CHR 0xD6, CHR 0xD8,
      CHR 0xD9, CHR 0xDA, CHR 0xDB, CHR 0xDC, CHR 0xDD, CHR 0xDE]"

definition lower_chars :: string where
  "lower_chars = ''abcdefghijklmnopqrstuvwxyz'' @
     [CHR 0xE0, CHR 0xE1, CHR 0xE2, CHR 0xE3, CHR 0xE4, CHR 0xE5, CHR 0xE6, CHR 0xE7,
      CHR 0xE8, CHR 0xE9, CHR 0xEA, CHR 0xEB, CHR 0xEC, CHR 0xED, CHR 0xEE, CHR 0xEF,
      CHR 0xF0, CHR 0xF1, CHR 0xF2, CHR 0xF3, CHR 0xF4, CHR 0xF5, CHR 0xF6, CHR 0xF8,
      CHR 0xF9, CHR 0xFA, CHR 0xFB, CHR 0xFC, CHR 0xFD, CHR 0xFE]"

definition lower_char :: "char \<Rightarrow> char" where
  "lower_char c =
     (case map_of (zip upper_chars lower_chars) c of Some d \<Rightarrow> d | None \<Rightarrow> c)"

definition toLowerCase :: "string \<Rightarrow> string" where
  "toLowerCase s = map lower_char s"

fun includes_str :: "string \<Rightarrow> string \<Rightarrow> bool" where
  "includes_str [] sub = (sub = [])"
| "includes_str (x # xs) sub = (prefix sub (x # xs) \<or> includes_str xs sub)"

definition sanitizeEmail :: "string \<Rightarrow> string" where
  "sanitizeEmail email = toLowerCase (trim email)"

text \<open>
  \<open>getErrorMessage\<close> (lib/api) takes whatever was thrown: an \<open>ApiError\<close> (an object with
  \<open>message\<close> and \<open>status\<close>), an \<open>Error\<close>, or anything else.
\<close>

datatype thrown = ThrownApiError api_error | ThrownError string | ThrownOther

definition getErrorMessage :: "thrown \<Rightarrow> string" where
  "getErrorMessage err =
     (case err of
        ThrownApiError e \<Rightarrow> message e
      | ThrownError m \<Rightarrow> m
      | ThrownOther \<Rightarrow> ''An unexpected error occurred'')"

text \<open>
  What the user can observe of the screen: haptic feedback, an alert (title, text, buttons)
  and a navigation (\<open>router.push\<close> with the path and the \<open>email\<close> parameter).
\<close>

datatype haptic = NotifySuccess | NotifyError | ImpactMedium

datatype ui_effect = Haptic haptic | Alert string string "string list" | RouterPush string string

record forgot_password_response =
  fp_success :: bool
  fp_message :: string

definition forgotPassword ::
  "forgot_password_response axios_outcome \<Rightarrow> world \<Rightarrow>
   (api_error + forgot_password_response) \<times> world" where
  "forgotPassword out w = api_request out w"

text \<open>The two tests \<open>onError\<close> makes on the lower-cased message.\<close>

definition mentions_rate_limit :: "string \<Rightarrow> bool" where
  "mentions_rate_limit msg =
     (includes_str (toLowerCase msg) ''rate'' \<or> includes_str (toLowerCase msg) ''too many'')"

definition mentions_network :: "string \<Rightarrow> bool" where
  "mentions_network msg =
     (includes_str (toLowerCase msg) ''network'' \<or> includes_str (toLowerCase msg) ''connection'')"

definition handleSubmit_onSuccess :: "bool \<Rightarrow> string \<Rightarrow> ui_effect list" where
  "handleSubmit_onSuccess isMounted sanitizedEmail =
     (if \<not> isMounted then []
      else [Haptic NotifySuccess, RouterPush ''/(auth)/reset-password'' sanitizedEmail])"

definition handleSubmit_onError :: "bool \<Rightarrow> string \<Rightarrow> thrown \<Rightarrow> ui_effect list" where
  "handleSubmit_onError isMounted sanitizedEmail err =
     (if \<not> isMounted then []
      else (let msg = getErrorMessage err in
        if mentions_rate_limit msg then
          [Haptic NotifyError,
           Alert ''Too Many Attempts''
             ''Please wait a while before requesting another reset code.'' [''OK'']]
        else if mentions_network msg then
          [Haptic NotifyError,
           Alert ''Connection Error''
             ''Unable to connect. Please check your internet and try again.''
             [''Cancel'', ''Retry'']]
        else [Haptic NotifySuccess, RouterPush ''/(auth)/reset-password'' sanitizedEmail]))"

text \<open>
  \<open>handleSubmit\<close> once the form has passed validation: the medium impact, the sanitised
  email, and the mutation with its two callbacks. \<open>isMounted\<close> is \<open>isMountedRef.current\<close>
  when the request settles.
\<close>

definition handleSubmit_mutate ::
  "forgot_password_response axios_outcome \<Rightarrow> bool \<Rightarrow> string \<Rightarrow> world \<Rightarrow>
   ui_effect list \<times> world" where
  "handleSubmit_mutate out isMounted email w =
     (let sanitizedEmail = sanitizeEmail email in
      case forgotPassword out w of
        (Inr d, w') \<Rightarrow> (Haptic ImpactMedium # handleSubmit_onSuccess isMounted sanitizedEmail, w')
      | (Inl e, w') \<Rightarrow>
          (Haptic ImpactMedium # handleSubmit_onError isMounted sanitizedEmail (ThrownApiError e),
           w'))"

section \<open>Invariants and example inputs\<close>

text \<open>Invariants of the splash screen and of the resend countdown, used in the proofs below.\<close>

definition splash_inv :: "splash \<Rightarrow> bool" where
  "splash_inv s =
     ((hasNavigatedRef s \<longrightarrow> length (replaced s) = 1)
      \<and> (\<not> hasNavigatedRef s \<longrightarrow> replaced s = [])
      \<and> (isAnimationComplete s \<and> sp_isHydrated s \<longrightarrow> hasNavigatedRef s))"

definition cd_inv :: "nat \<Rightarrow> otp_screen \<Rightarrow> bool" where
  "cd_inv k s =
     (mounted s \<and> countdown s = max 0 (60 - int k) \<and> canResend s = (60 \<le> k)
      \<and> timerRunning s = (k < 60))"

text \<open>Concrete inputs: the mock backend's user and token, and some backend replies.\<close>

definition example_user :: api_user where
  "example_user =
     \<lparr>u_id = ''user-1'', u_email = ''buyer@example.com'', u_name = Some ''Test Buyer'',
      u_role = BUYER, u_emailVerified = True, u_image = None,
      u_createdAt = ''2025-01-01T00:00:00.000Z'', u_updatedAt = ''2025-01-01T00:00:00.000Z''\<rparr>"

definition example_session :: session where
  "example_session =
     \<lparr>sess_id = ''session-1'', sess_userId = ''user-1'',
      sess_expiresAt = ''2025-02-01T00:00:00.000Z'', sess_token = ''mock-session-token''\<rparr>"

definition mock_response :: auth_response where
  "mock_response = \<lparr>resp_user = Some example_user, resp_session = Some example_session\<rparr>"

definition tokenless_response :: auth_response where
  "tokenless_response = \<lparr>resp_user = Some example_user, resp_session = None\<rparr>"

definition fresh_world :: world where
  "fresh_world =
     \<lparr>secure = \<lparr>items = Map.empty, rejects = (\<lambda>k. False)\<rparr>, auth = initial_auth_state,
      queries = []\<rparr>"

definition signed_in_world :: world where
  "signed_in_world =
     \<lparr>secure = \<lparr>items = [''swuva-auth-token'' \<mapsto> ''mock-session-token''], rejects = (\<lambda>k. False)\<rparr>,
      auth = setAuth (to_store_user example_user) ''mock-session-token''
               (initial_auth_state\<lparr>isHydrated := True, rememberedEmail := Some ''buyer@example.com''\<rparr>),
      queries = [([''auth'', ''session''], False)]\<rparr>"

definition server_error :: axios_error where
  "server_error =
     \<lparr>ax_response = Some \<lparr>er_status = 500, er_data = None\<rparr>,
      ax_message = ''Request failed with status code 500''\<rparr>"

definition unauthorized_error :: axios_error where
  "unauthorized_error =
     \<lparr>ax_response = Some \<lparr>er_status = 401,
        er_data = Some \<lparr>r_message = Some ''Unauthorized'', r_code = None, r_errors = None\<rparr>\<rparr>,
      ax_message = ''Request failed with status code 401''\<rparr>"

definition network_error :: axios_error where
  "network_error = \<lparr>ax_response = None, ax_message = ''Network Error''\<rparr>"

definition not_found_error :: axios_error where
  "not_found_error =
     \<lparr>ax_response = Some \<lparr>er_status = 404,
        er_data = Some \<lparr>r_message = Some ''User not found'', r_code = Some ''USER_NOT_FOUND'',
                       r_errors = None\<rparr>\<rparr>,
      ax_message = ''Request failed with status code 404''\<rparr>"

text \<open>
  A signed-in device whose keychain is not available: every secure-store call throws.
\<close>

definition keychain_failing_world :: world where
  "keychain_failing_world =
     signed_in_world\<lparr>secure := (secure signed_in_world)\<lparr>rejects := (\<lambda>k. True)\<rparr>\<rparr>"

text \<open>The code 123456 typed digit by digit, the screen rendering after each digit.\<close>

definition six_digits :: "otp_event list" where
  "six_digits =
     [DigitTyped ''1'' 0, Render, DigitTyped ''2'' 1, Render, DigitTyped ''3'' 2, Render,
      DigitTyped ''4'' 3, Render, DigitTyped ''5'' 4, Render, DigitTyped ''6'' 5, Render]"

section \<open>Theorems\<close>

subsection \<open>Shared lemmas\<close>

lemmas otp_defs =
  otp_step_def otp_handle_def render_def autoVerify_effect_def handleVerify_def
  handleResend_def handleOtpChange_def startCountdown_def tick_def Let_def

lemmas entry_defs =
  handleDigitChange_def handleKeyPress_def last_digit_def is_digit_def set_slot_def OTP_LENGTH_def

lemma onRejected_auth: "auth (snd (response_onRejected e w)) = auth w"
  by (simp add: response_onRejected_def Let_def split: sum.splits)

lemma onRejected_rejects: "rejects (secure (snd (response_onRejected e w))) = rejects (secure w)"
  by (auto simp add: response_onRejected_def Let_def deleteItemAsync_def split: sum.splits if_splits)

lemma getSession_result:
  "fst (getSession out w) = (case out of Fulfilled st d \<Rightarrow> Inr (Some d) | Rejected e \<Rightarrow> Inr None)"
  by (cases out) (simp_all add: getSession_def api_request_def split: prod.splits)

lemma onSuccess_handlers_agree:
  "useVerifyEmailOTP_onSuccess = useSignIn_onSuccess"
  "useSignInWithOTP_onSuccess = useSignIn_onSuccess"
  by (auto simp: fun_eq_iff useVerifyEmailOTP_onSuccess_def useSignIn_onSuccess_def
      useSignInWithOTP_onSuccess_def)

lemma useSignIn_onSuccess_store:
  assumes "useSignIn_onSuccess data w = Inr w'"
  shows "(resp_user data = None \<longrightarrow> auth w' = auth w)
     \<and> (\<forall>u. resp_user data = Some u \<longrightarrow>
          isAuthenticated (auth w') \<and> user (auth w') = Some (to_store_user u)
          \<and> token (auth w') = Some (or_string (response_token data) []))
     \<and> (or_string (response_token data) [] \<noteq> [] \<longleftrightarrow> truthy (response_token data))
     \<and> (truthy (response_token data) \<longrightarrow>
          items (secure w') ''swuva-auth-token'' = response_token data)"
  using assms
  by (auto simp add: useSignIn_onSuccess_def Let_def setAuth_def or_string_def truthy_def
      setItemAsync_def split: option.splits sum.splits if_splits)

lemma mutate_fulfilled:
  "useSignIn_mutate (Fulfilled st data) w =
     (case useSignIn_onSuccess data w of Inl f \<Rightarrow> (Some f, w) | Inr w' \<Rightarrow> (None, w'))"
  "useVerifyEmailOTP_mutate (Fulfilled st data) w =
     (case useSignIn_onSuccess data w of Inl f \<Rightarrow> (Some f, w) | Inr w' \<Rightarrow> (None, w'))"
  "useSignInWithOTP_mutate (Fulfilled st data) w =
     (case useSignIn_onSuccess data w of Inl f \<Rightarrow> (Some f, w) | Inr w' \<Rightarrow> (None, w'))"
  by (simp_all add: useSignIn_mutate_def useVerifyEmailOTP_mutate_def useSignInWithOTP_mutate_def
      signIn_def verifyEmailOTP_def signInWithOTP_def api_request_def onSuccess_handlers_agree)

lemma signOut_when_delete_succeeds:
  assumes "\<not> rejects (secure w) ''swuva-auth-token''"
  shows "fst (useSignOut_mutate out w) =
       (case out of Fulfilled st d \<Rightarrow> None
        | Rejected e \<Rightarrow> Some (ApiFailure (normalize_error e)))
     \<and> items (secure (snd (useSignOut_mutate out w))) ''swuva-auth-token'' = None
     \<and> auth (snd (useSignOut_mutate out w)) = logout (auth w)"
proof (cases out)
  case (Fulfilled st d)
  then show ?thesis
    using assms
    by (simp add: useSignOut_mutate_def signOut_def api_request_def useSignOut_onSuccess_def
        deleteItemAsync_def)
next
  case (Rejected e)
  obtain ae w1 where r: "response_onRejected e w = (ae, w1)"
    by (cases "response_onRejected e w")
  have a: "auth w1 = auth w"
    using onRejected_auth[of e w] r by simp
  have b: "rejects (secure w1) = rejects (secure w)"
    using onRejected_rejects[of e w] r by simp
  have c: "ae = normalize_error e"
    using r by (simp add: response_onRejected_def Let_def)
  show ?thesis
    using assms Rejected r a b c
    by (simp add: useSignOut_mutate_def signOut_def api_request_def useSignOut_onError_def
        deleteItemAsync_def)
qed

lemma splash_step_inv: "splash_inv s \<Longrightarrow> splash_inv (splash_step stored e s)"
  by (cases e)
    (auto simp: splash_inv_def splash_step_def splash_update_def splash_effect_def
      splash_deps_def Let_def)

lemma splash_run_inv: "splash_inv s \<Longrightarrow> splash_inv (splash_run stored es s)"
  by (induction es arbitrary: s) (simp_all add: splash_step_inv)

lemma splash_mount_inv: "splash_inv (splash_mount stored)"
  by (simp add: splash_inv_def splash_mount_def splash_effect_def splash_initial_def)

lemma splash_step_navigated:
  "hasNavigatedRef s \<Longrightarrow>
   hasNavigatedRef (splash_step stored e s) \<and> replaced (splash_step stored e s) = replaced s"
  by (cases e) (auto simp: splash_step_def splash_update_def splash_effect_def Let_def)

lemma splash_run_navigated:
  "hasNavigatedRef s \<Longrightarrow>
   hasNavigatedRef (splash_run stored es s) \<and> replaced (splash_run stored es s) = replaced s"
proof (induction es arbitrary: s)
  case Nil
  then show ?case by simp
next
  case (Cons e es)
  from Cons.prems have h: "hasNavigatedRef (splash_step stored e s)"
      "replaced (splash_step stored e s) = replaced s"
    using splash_step_navigated by auto
  from Cons.IH[OF h(1)] h(2) show ?case by simp
qed

lemma splash_step_unhydrated:
  "\<not> sp_isHydrated (splash_step stored e s) \<Longrightarrow> replaced (splash_step stored e s) = replaced s"
  by (cases e)
    (auto simp: splash_step_def splash_update_def splash_effect_def Let_def split: if_splits)

lemma splash_step_stays_unhydrated:
  "\<not> sp_isHydrated s \<Longrightarrow> e \<noteq> StoreHydrated True \<Longrightarrow> \<not> sp_isHydrated (splash_step stored e s)"
  by (cases e)
    (auto simp: splash_step_def splash_update_def splash_effect_def Let_def split: if_splits)

lemma splash_run_unhydrated:
  "\<not> sp_isHydrated s \<Longrightarrow> StoreHydrated True \<notin> set es \<Longrightarrow>
   \<not> sp_isHydrated (splash_run stored es s) \<and> replaced (splash_run stored es s) = replaced s"
proof (induction es arbitrary: s)
  case Nil
  then show ?case by simp
next
  case (Cons e es)
  then have a: "\<not> sp_isHydrated (splash_step stored e s)"
    using splash_step_stays_unhydrated by auto
  then have b: "replaced (splash_step stored e s) = replaced s"
    using splash_step_unhydrated by auto
  from Cons.IH[OF a] Cons.prems(2) b show ?case by simp
qed

lemma otp_run_append: "otp_run email (es @ es') s = otp_run email es' (otp_run email es s)"
  by (induction es arbitrary: s) simp_all

lemma cd_inv_mount: "cd_inv 0 otp_mount"
  by (simp add: cd_inv_def otp_mount_def otp_initial_def render_def autoVerify_effect_def
      startCountdown_def RESEND_COOLDOWN_def)

lemma cd_inv_tick: "cd_inv k s \<Longrightarrow> cd_inv (Suc k) (otp_step email Tick s)"
  by (auto simp: cd_inv_def otp_defs)

lemma cd_inv_other:
  "cd_inv k s \<Longrightarrow> e \<noteq> Tick \<Longrightarrow> e \<noteq> ResendSettled True \<Longrightarrow> e \<noteq> Unmounted \<Longrightarrow>
   cd_inv k (otp_step email e s)"
  by (cases e) (auto simp: cd_inv_def otp_defs split: option.splits)

lemma cd_inv_run:
  "cd_inv k s \<Longrightarrow> \<forall>e\<in>set es. e \<noteq> ResendSettled True \<and> e \<noteq> Unmounted \<Longrightarrow>
   cd_inv (k + count_list es Tick) (otp_run email es s)"
proof (induction es arbitrary: k s)
  case Nil
  then show ?case by simp
next
  case (Cons e es)
  show ?case
  proof (cases "e = Tick")
    case True
    with Cons.prems have "cd_inv (Suc k) (otp_step email e s)"
      using cd_inv_tick by simp
    from Cons.IH[OF this] Cons.prems(2) True show ?thesis by simp
  next
    case False
    with Cons.prems have "cd_inv k (otp_step email e s)"
      using cd_inv_other by simp
    from Cons.IH[OF this] Cons.prems(2) False show ?thesis by simp
  qed
qed

lemma cd_inv_view:
  "cd_inv k s \<Longrightarrow> countdown_view s = (if k < 60 then COUNTING (60 - int k) else READY)"
  by (auto simp: cd_inv_def countdown_view_def)

lemma cd_inv_restart:
  "mounted s \<Longrightarrow> cd_inv 0 (otp_run email [ResendPressed, ResendSettled True] s)"
  by (auto simp: cd_inv_def otp_defs RESEND_COOLDOWN_def)

lemma count_list_replicate_same: "count_list (replicate n x) x = n"
  by (induction n) simp_all

lemma six_digits_entered:
  "otp (otp_run email six_digits otp_mount) = ''123456''
   \<and> seen_otp (otp_run email six_digits otp_mount) = ''123456''
   \<and> autoVerifyTimeout (otp_run email six_digits otp_mount)
   \<and> verifyCalls (otp_run email six_digits otp_mount) = []
   \<and> \<not> verifyPending (otp_run email six_digits otp_mount)
   \<and> \<not> seen_verifyPending (otp_run email six_digits otp_mount)
   \<and> otp_error (otp_run email six_digits otp_mount) = None
   \<and> seen_error (otp_run email six_digits otp_mount) = None
   \<and> mounted (otp_run email six_digits otp_mount)"
  by (simp add: six_digits_def otp_mount_def otp_initial_def otp_defs entry_defs)

lemma user_not_found_message: "message (normalize_error not_found_error) = ''User not found''"
  by (simp add: normalize_error_def not_found_error_def or_string_def)

lemma user_not_found_unfiltered:
  "\<not> mentions_rate_limit ''User not found''" "\<not> mentions_network ''User not found''"
  by (simp_all add: mentions_rate_limit_def mentions_network_def toLowerCase_def
      lower_char_def upper_chars_def lower_chars_def)

lemma sanitizeEmail_example: "sanitizeEmail '' Buyer@Example.com '' = ''buyer@example.com''"
  by (simp add: sanitizeEmail_def trim_def is_space_def toLowerCase_def lower_char_def
      upper_chars_def lower_chars_def)

subsection \<open>The claims\<close>

text \<open>
  C1, as stated: on every sign-in, OTP-verify and sign-in-with-OTP success path, a store
  that reports \<open>isAuthenticated = true\<close> holds a non-empty token, and \<open>setAuth\<close> is never
  called with an empty token. It fails for a successful response that carries a user and
  no session token: the handler passes \<open>data.session?.token || ''\<close>, the empty string, to
  \<open>setAuth\<close>, and the store is authenticated with the token \<open>''\<close>.
\<close>

theorem signIn_without_token_is_authenticated:
  "useSignIn_mutate (Fulfilled 200 tokenless_response) fresh_world =
     (None, fresh_world\<lparr>auth := setAuth (to_store_user example_user) [] initial_auth_state\<rparr>)
   \<and> isAuthenticated (setAuth (to_store_user example_user) [] initial_auth_state)
   \<and> token (setAuth (to_store_user example_user) [] initial_auth_state) = Some []"
  by (simp add: mutate_fulfilled useSignIn_onSuccess_def tokenless_response_def fresh_world_def
      response_token_def or_string_def setAuth_def invalidateQueries_def)

text \<open>
  C1, amended: when a sign-in, OTP-verify or sign-in-with-OTP mutation succeeds (the request
  is fulfilled and \<open>onSuccess\<close> completes), a response without a user leaves the store as
  it was; a response with a user leaves the store with \<open>isAuthenticated = true\<close>, that user
  (non-null), and a non-null token, which is the response's session token, or the empty
  string when the response has none. The stored token is non-empty exactly when the
  response's token is, and then the secure store holds the same token.
\<close>

theorem auth_success_store_state:
  assumes "m \<in> {useSignIn_mutate, useVerifyEmailOTP_mutate, useSignInWithOTP_mutate}"
    and "m (Fulfilled st data) w = (None, w')"
  shows "(resp_user data = None \<longrightarrow> auth w' = auth w)
     \<and> (\<forall>u. resp_user data = Some u \<longrightarrow>
          isAuthenticated (auth w') \<and> user (auth w') = Some (to_store_user u)
          \<and> token (auth w') = Some (or_string (response_token data) []))
     \<and> (or_string (response_token data) [] \<noteq> [] \<longleftrightarrow> truthy (response_token data))
     \<and> (truthy (response_token data) \<longrightarrow>
          items (secure w') ''swuva-auth-token'' = response_token data)"
proof -
  from assms have "(case useSignIn_onSuccess data w of
      Inl f \<Rightarrow> (Some f, w) | Inr w'' \<Rightarrow> (None, w'')) = (None, w')"
    using mutate_fulfilled by auto
  then have "useSignIn_onSuccess data w = Inr w'"
    by (simp split: sum.splits)
  then show ?thesis
    by (rule useSignIn_onSuccess_store)
qed

theorem auth_success_store_state_witness:
  "useVerifyEmailOTP_mutate (Fulfilled 200 mock_response) fresh_world =
     (None, fresh_world
       \<lparr>secure := \<lparr>items = [''swuva-auth-token'' \<mapsto> ''mock-session-token''], rejects = (\<lambda>k. False)\<rparr>,
        auth := setAuth (to_store_user example_user) ''mock-session-token'' initial_auth_state\<rparr>)
   \<and> isAuthenticated (setAuth (to_store_user example_user) ''mock-session-token'' initial_auth_state)
   \<and> token (setAuth (to_store_user example_user) ''mock-session-token'' initial_auth_state)
       = Some ''mock-session-token''
   \<and> user (setAuth (to_store_user example_user) ''mock-session-token'' initial_auth_state)
       = Some (to_store_user example_user)"
proof -
  let ?w = "fresh_world
       \<lparr>secure := \<lparr>items = [''swuva-auth-token'' \<mapsto> ''mock-session-token''], rejects = (\<lambda>k. False)\<rparr>,
        auth := setAuth (to_store_user example_user) ''mock-session-token'' initial_auth_state\<rparr>"
  have r: "useVerifyEmailOTP_mutate (Fulfilled 200 mock_response) fresh_world = (None, ?w)"
    by (simp add: mutate_fulfilled useSignIn_onSuccess_def mock_response_def fresh_world_def
        response_token_def example_session_def truthy_def setItemAsync_def or_string_def
        invalidateQueries_def)
  have h: "useVerifyEmailOTP_mutate \<in>
      {useSignIn_mutate, useVerifyEmailOTP_mutate, useSignInWithOTP_mutate}"
    by simp
  have u: "resp_user mock_response = Some example_user"
    by (simp add: mock_response_def)
  have t: "or_string (response_token mock_response) [] = ''mock-session-token''"
    by (simp add: mock_response_def response_token_def example_session_def or_string_def)
  from auth_success_store_state[OF h r] u t r show ?thesis
    by (simp add: fresh_world_def)
qed

text \<open>
  C2. The claim: \<open>getSession()\<close> returns null exactly on HTTP 401 and throws the
  normalised error on every other failing status. The code returns null for every
  rejected request: here for a 500 response, where the claim asks for a thrown error.
\<close>

theorem getSession_500_returns_null:
  "fst (getSession (Rejected server_error) w) = Inr None
   \<and> status (normalize_error server_error) = 500"
  by (simp add: getSession_result normalize_error_def server_error_def or_number_def)

text \<open>
  C3, as stated: once hydrated, the guard makes one redirect decision for each later
  change of \<open>(isAuthenticated, currentGroup)\<close>. The splash effect decides once, when the
  animation has completed and the store is hydrated; the three changes that follow cause
  no further decision.
\<close>

theorem splash_decides_once_only:
  "replaced (splash_run (Inr None) [AnimationComplete, StoreHydrated True]
      (splash_mount (Inr None))) = [Onboarding]
   \<and> replaced (splash_run (Inr None)
      [AnimationComplete, StoreHydrated True, StoreAuthenticated True,
       RouteGroupChanged TabsGroup, StoreAuthenticated False]
      (splash_mount (Inr None))) = [Onboarding]"
  by (simp add: splash_mount_def splash_initial_def splash_step_def splash_update_def
      splash_effect_def splash_deps_def navigate_def Let_def)

text \<open>
  C3, amended: for any interleaving of changes to the animation flag, \<open>isHydrated\<close>,
  \<open>isAuthenticated\<close> and the route group, the splash guard makes no redirect decision
  before \<open>isHydrated\<close> first becomes true, and none in a step that ends with
  \<open>isHydrated = false\<close>; it makes at most one decision in all, exactly one once the
  animation has completed and the store is hydrated, and no later change adds another
  (the effect is one-shot, guarded by \<open>hasNavigatedRef\<close>).
\<close>

theorem splash_guard_one_shot:
  fixes stored es es' e
  defines "s \<equiv> splash_run stored es (splash_mount stored)"
  shows "length (replaced s) \<le> 1
    \<and> (StoreHydrated True \<notin> set es \<longrightarrow> replaced s = [])
    \<and> (\<not> sp_isHydrated (splash_step stored e s) \<longrightarrow>
         replaced (splash_step stored e s) = replaced s)
    \<and> (isAnimationComplete s \<and> sp_isHydrated s \<longrightarrow> length (replaced s) = 1)
    \<and> (replaced s \<noteq> [] \<longrightarrow> replaced (splash_run stored es' s) = replaced s)"
proof -
  have inv: "splash_inv s"
    unfolding s_def by (rule splash_run_inv[OF splash_mount_inv])
  have m: "\<not> sp_isHydrated (splash_mount stored)" "replaced (splash_mount stored) = []"
    by (simp_all add: splash_mount_def splash_effect_def splash_initial_def)
  have 1: "length (replaced s) \<le> 1"
    using inv by (cases "hasNavigatedRef s") (simp_all add: splash_inv_def)
  have 2: "StoreHydrated True \<notin> set es \<longrightarrow> replaced s = []"
    using splash_run_unhydrated[OF m(1)] m(2) unfolding s_def by simp
  have 3: "\<not> sp_isHydrated (splash_step stored e s) \<longrightarrow>
      replaced (splash_step stored e s) = replaced s"
    using splash_step_unhydrated by blast
  have 4: "isAnimationComplete s \<and> sp_isHydrated s \<longrightarrow> length (replaced s) = 1"
    using inv by (simp add: splash_inv_def)
  have 5: "replaced s \<noteq> [] \<longrightarrow> replaced (splash_run stored es' s) = replaced s"
  proof
    assume "replaced s \<noteq> []"
    then have "hasNavigatedRef s"
      using inv by (auto simp: splash_inv_def)
    then show "replaced (splash_run stored es' s) = replaced s"
      using splash_run_navigated by blast
  qed
  from 1 2 3 4 5 show ?thesis by blast
qed

theorem splash_guard_one_shot_witness:
  "replaced (splash_run (Inr (Some ''true'')) [StoreAuthenticated True, AnimationComplete]
      (splash_mount (Inr (Some ''true'')))) = []
   \<and> replaced (splash_run (Inr (Some ''true'')) [AnimationComplete, StoreHydrated True]
      (splash_mount (Inr (Some ''true'')))) = [Login]
   \<and> replaced (splash_run (Inr (Some ''true''))
      [StoreAuthenticated True, RouteGroupChanged TabsGroup]
      (splash_run (Inr (Some ''true'')) [AnimationComplete, StoreHydrated True]
        (splash_mount (Inr (Some ''true''))))) = [Login]"
proof -
  let ?st = "Inr (Some ''true'') :: failure + string option"
  let ?s = "splash_run ?st [AnimationComplete, StoreHydrated True] (splash_mount ?st)"
  have a: "StoreHydrated True \<notin> set [StoreAuthenticated True, AnimationComplete]"
    by simp
  have b: "replaced ?s = [Login]"
    by (simp add: splash_mount_def splash_initial_def splash_step_def splash_update_def
        splash_effect_def splash_deps_def navigate_def Let_def)
  have c: "isAnimationComplete ?s \<and> sp_isHydrated ?s"
    by (simp add: splash_mount_def splash_initial_def splash_step_def splash_update_def
        splash_effect_def splash_deps_def navigate_def Let_def)
  from splash_guard_one_shot[where stored = ?st
      and es = "[StoreAuthenticated True, AnimationComplete]"] a
  have 1: "replaced (splash_run ?st [StoreAuthenticated True, AnimationComplete]
      (splash_mount ?st)) = []"
    by blast
  from splash_guard_one_shot[where stored = ?st
      and es = "[AnimationComplete, StoreHydrated True]"
      and es' = "[StoreAuthenticated True, RouteGroupChanged TabsGroup]"] b c
  have 2: "replaced (splash_run ?st [StoreAuthenticated True, RouteGroupChanged TabsGroup] ?s)
      = [Login]"
    by simp
  from 1 b 2 show ?thesis by simp
qed

text \<open>
  C4. The claim: in both outcomes of the remote sign-out call the sign-out operation
  deletes the secure-storage token and calls \<open>logout()\<close>, so that the local state is the
  logged-out state. \<open>onSuccess\<close> and \<open>onError\<close> await the delete with no \<open>try\<close> around
  it, and \<open>logout()\<close> is the statement after it: on a device whose secure store throws,
  the handler ends at the delete, and after sign-out the store is still authenticated with
  its user and token, whether the remote call succeeded or failed.
\<close>

theorem signOut_skips_logout_when_delete_throws:
  "auth (snd (useSignOut_mutate (Fulfilled 200 ()) keychain_failing_world))
     = auth signed_in_world
   \<and> auth (snd (useSignOut_mutate (Rejected network_error) keychain_failing_world))
     = auth signed_in_world
   \<and> isAuthenticated (auth signed_in_world)
   \<and> token (auth signed_in_world) = Some ''mock-session-token''
   \<and> user (auth signed_in_world) = Some (to_store_user example_user)
   \<and> items (secure (snd (useSignOut_mutate (Rejected network_error) keychain_failing_world)))
       ''swuva-auth-token'' = Some ''mock-session-token''"
  by (simp add: useSignOut_mutate_def signOut_def api_request_def response_onRejected_def
      useSignOut_onSuccess_def useSignOut_onError_def deleteItemAsync_def
      keychain_failing_world_def signed_in_world_def network_error_def setAuth_def)

text \<open>
  C5. For every prior store state, \<open>logout()\<close> sets \<open>user\<close> to null, \<open>token\<close> to null
  and \<open>isAuthenticated\<close> to false, and leaves \<open>rememberedEmail\<close> and \<open>isHydrated\<close>
  exactly as they were.
\<close>

theorem logout_clears_session_keeps_rememberedEmail:
  "user (logout s) = None \<and> token (logout s) = None \<and> \<not> isAuthenticated (logout s)
   \<and> rememberedEmail (logout s) = rememberedEmail s
   \<and> isHydrated (logout s) = isHydrated s"
  by (simp add: logout_def)

text \<open>
  C6. The hydration callback sets \<open>isHydrated = true\<close> in every outcome of the
  durable-storage load, from any in-memory state; when the load reports an error at
  startup, the store is the default logged-out state with \<open>isHydrated = true\<close>.
\<close>

theorem rehydrate_always_hydrated:
  "isHydrated (rehydrate r s)
   \<and> rehydrate (LoadFailed e) initial_auth_state =
       \<lparr>user = None, token = None, isAuthenticated = False, isHydrated = True,
        rememberedEmail = None\<rparr>"
  by (cases r)
    (simp_all add: rehydrate_def onRehydrateStorage_def initial_auth_state_def Let_def)

text \<open>
  C7. The claim: six entered digits trigger exactly one verification call, and no second
  call is started while one is in flight. The auto-verify effect and the \<open>disabled\<close>
  props do test \<open>isPending\<close>, but they take effect with the next render, and
  \<open>handleVerify\<close> itself does not test it. With 123456 entered and the timeout armed, a
  press of Continue followed by the due timeout, before the screen has rendered again,
  calls \<open>verifyOTP.mutate\<close> twice, the second time while the first call is in flight. And
  after a verification that succeeded, the next render arms the timeout again on the
  still complete code, so that the screen, until it is left, verifies the same code a
  second time.
\<close>

theorem otp_double_submission:
  "verifyCalls (otp_run ''buyer@example.com'' (six_digits @ [ContinuePressed]) otp_mount)
     = [(''buyer@example.com'', ''123456'')]
   \<and> verifyPending (otp_run ''buyer@example.com'' (six_digits @ [ContinuePressed]) otp_mount)
   \<and> verifyCalls (otp_run ''buyer@example.com''
        (six_digits @ [ContinuePressed, TimeoutFired]) otp_mount)
     = [(''buyer@example.com'', ''123456''), (''buyer@example.com'', ''123456'')]
   \<and> verifyCalls (otp_run ''buyer@example.com''
        (six_digits @ [TimeoutFired, Render, VerifySettled None, Render, TimeoutFired])
        otp_mount)
     = [(''buyer@example.com'', ''123456''), (''buyer@example.com'', ''123456'')]"
proof -
  let ?m = "''buyer@example.com''"
  let ?s = "otp_run ?m six_digits otp_mount"
  note s = six_digits_entered[of ?m]
  have len: "length ''123456'' = OTP_LENGTH"
    by (simp add: OTP_LENGTH_def)
  have 1: "verifyCalls (otp_run ?m [ContinuePressed] ?s) = [(?m, ''123456'')]
      \<and> verifyPending (otp_run ?m [ContinuePressed] ?s)"
    using s len by (simp add: otp_defs)
  have 2: "verifyCalls (otp_run ?m [ContinuePressed, TimeoutFired] ?s)
      = [(?m, ''123456''), (?m, ''123456'')]"
    using s len by (simp add: otp_defs)
  have 3: "verifyCalls (otp_run ?m
      [TimeoutFired, Render, VerifySettled None, Render, TimeoutFired] ?s)
      = [(?m, ''123456''), (?m, ''123456'')]"
    using s len by (simp add: otp_defs)
  from 1 2 3 show ?thesis
    by (simp add: otp_run_append)
qed

text \<open>
  C8. The resend countdown starts in \<open>COUNTING 60\<close>. As long as no resend succeeds, after
  \<open>k\<close> one-second ticks (whatever else happens on the screen in between) the state is
  \<open>COUNTING (60 - k)\<close> for \<open>k < 60\<close> and \<open>READY\<close> from the 60th tick on. A successful
  resend made while \<open>READY\<close> puts the state back to \<open>COUNTING 60\<close> with the timer
  running, and the countdown then proceeds as before.
\<close>

theorem otp_resend_countdown:
  assumes "\<forall>e\<in>set es. e \<noteq> ResendSettled True \<and> e \<noteq> Unmounted"
    and "\<forall>e\<in>set es'. e \<noteq> ResendSettled True \<and> e \<noteq> Unmounted"
  shows "countdown_view otp_mount = COUNTING 60
    \<and> countdown_view (otp_run email es otp_mount) =
        (if count_list es Tick < 60 then COUNTING (60 - int (count_list es Tick)) else READY)
    \<and> (60 \<le> count_list es Tick \<longrightarrow>
         countdown_view (otp_run email (es @ [ResendPressed, ResendSettled True]) otp_mount)
           = COUNTING 60
       \<and> timerRunning (otp_run email (es @ [ResendPressed, ResendSettled True]) otp_mount)
       \<and> countdown_view
           (otp_run email (es @ [ResendPressed, ResendSettled True] @ es') otp_mount) =
           (if count_list es' Tick < 60 then COUNTING (60 - int (count_list es' Tick))
            else READY))"
proof -
  have a: "cd_inv (count_list es Tick) (otp_run email es otp_mount)"
    using cd_inv_run[OF cd_inv_mount assms(1)] by simp
  then have m: "mounted (otp_run email es otp_mount)"
    by (simp add: cd_inv_def)
  have r: "cd_inv 0 (otp_run email (es @ [ResendPressed, ResendSettled True]) otp_mount)"
    unfolding otp_run_append using cd_inv_restart[OF m] .
  have r2: "cd_inv (count_list es' Tick)
      (otp_run email (es @ [ResendPressed, ResendSettled True] @ es') otp_mount)"
    using cd_inv_run[OF r assms(2)] by (simp add: otp_run_append)
  have 1: "countdown_view otp_mount = COUNTING 60"
    using cd_inv_view[OF cd_inv_mount] by simp
  have 2: "countdown_view (otp_run email es otp_mount) =
        (if count_list es Tick < 60 then COUNTING (60 - int (count_list es Tick)) else READY)"
    using cd_inv_view[OF a] .
  have 3: "countdown_view (otp_run email (es @ [ResendPressed, ResendSettled True]) otp_mount)
      = COUNTING 60"
    using cd_inv_view[OF r] by simp
  have 4: "timerRunning (otp_run email (es @ [ResendPressed, ResendSettled True]) otp_mount)"
    using r by (simp add: cd_inv_def)
  have 5: "countdown_view
      (otp_run email (es @ [ResendPressed, ResendSettled True] @ es') otp_mount) =
      (if count_list es' Tick < 60 then COUNTING (60 - int (count_list es' Tick)) else READY)"
    using cd_inv_view[OF r2] .
  from 1 2 3 4 5 show ?thesis by simp
qed

theorem otp_resend_countdown_witness:
  "countdown_view (otp_run ''buyer@example.com'' (replicate 59 Tick) otp_mount) = COUNTING 1
   \<and> countdown_view (otp_run ''buyer@example.com'' (replicate 60 Tick) otp_mount) = READY
   \<and> countdown_view (otp_run ''buyer@example.com''
        (replicate 60 Tick @ [ResendPressed, ResendSettled True]) otp_mount) = COUNTING 60
   \<and> countdown_view (otp_run ''buyer@example.com''
        (replicate 60 Tick @ [ResendPressed, ResendSettled True] @ [Tick, Tick]) otp_mount)
       = COUNTING 58"
proof -
  have h: "\<forall>e\<in>set (replicate n Tick). e \<noteq> ResendSettled True \<and> e \<noteq> Unmounted" for n
    by simp
  have h': "\<forall>e\<in>set [Tick, Tick]. e \<noteq> ResendSettled True \<and> e \<noteq> Unmounted"
    by simp
  from otp_resend_countdown[OF h[of 59] h', where email = "''buyer@example.com''"]
  have 1: "countdown_view (otp_run ''buyer@example.com'' (replicate 59 Tick) otp_mount)
      = COUNTING 1"
    by (simp add: count_list_replicate_same)
  from otp_resend_countdown[OF h[of 60] h', where email = "''buyer@example.com''"]
  have 2: "countdown_view (otp_run ''buyer@example.com'' (replicate 60 Tick) otp_mount) = READY
     \<and> countdown_view (otp_run ''buyer@example.com''
        (replicate 60 Tick @ [ResendPressed, ResendSettled True]) otp_mount) = COUNTING 60
     \<and> countdown_view (otp_run ''buyer@example.com''
        (replicate 60 Tick @ [ResendPressed, ResendSettled True] @ [Tick, Tick]) otp_mount)
       = COUNTING 58"
    by (simp add: count_list_replicate_same)
  from 1 2 show ?thesis by simp
qed

text \<open>
  C9. When the backend rejects the forgot-password request with an error whose message
  names neither a rate limit nor a network problem (such as "User not found" for an
  unknown email), the screen does exactly what it does when the request succeeds: on a
  mounted screen, success feedback and a push to the reset-password (OTP entry) route with
  the sanitised email. The two replies cannot be told apart by what the screen does.
\<close>

theorem forgot_password_not_found_same_as_found:
  assumes "\<not> mentions_rate_limit (message (normalize_error err))"
    and "\<not> mentions_network (message (normalize_error err))"
  shows "fst (handleSubmit_mutate (Rejected err) isMounted email w) =
         fst (handleSubmit_mutate (Fulfilled st d) isMounted email w)
     \<and> (isMounted \<longrightarrow> fst (handleSubmit_mutate (Rejected err) isMounted email w) =
          [Haptic ImpactMedium, Haptic NotifySuccess,
           RouterPush ''/(auth)/reset-password'' (sanitizeEmail email)])"
  using assms
  by (simp add: handleSubmit_mutate_def forgotPassword_def api_request_def
      response_onRejected_def handleSubmit_onSuccess_def handleSubmit_onError_def
      getErrorMessage_def Let_def)

theorem forgot_password_not_found_same_as_found_witness:
  "fst (handleSubmit_mutate (Rejected not_found_error) True '' Buyer@Example.com '' fresh_world)
     = [Haptic ImpactMedium, Haptic NotifySuccess,
        RouterPush ''/(auth)/reset-password'' ''buyer@example.com'']
   \<and> fst (handleSubmit_mutate
        (Fulfilled 200 \<lparr>fp_success = True, fp_message = ''OTP sent''\<rparr>) True
        '' Buyer@Example.com '' fresh_world)
     = [Haptic ImpactMedium, Haptic NotifySuccess,
        RouterPush ''/(auth)/reset-password'' ''buyer@example.com'']"
proof -
  have h1: "\<not> mentions_rate_limit (message (normalize_error not_found_error))"
    by (simp add: user_not_found_message user_not_found_unfiltered)
  have h2: "\<not> mentions_network (message (normalize_error not_found_error))"
    by (simp add: user_not_found_message user_not_found_unfiltered)
  note t = forgot_password_not_found_same_as_found[OF h1 h2, where isMounted = True
      and email = "'' Buyer@Example.com ''" and w = fresh_world and st = 200
      and d = "\<lparr>fp_success = True, fp_message = ''OTP sent''\<rparr>"]
  from t have same: "fst (handleSubmit_mutate (Rejected not_found_error) True
        '' Buyer@Example.com '' fresh_world) =
      fst (handleSubmit_mutate (Fulfilled 200 \<lparr>fp_success = True, fp_message = ''OTP sent''\<rparr>)
        True '' Buyer@Example.com '' fresh_world)"
    by (rule conjunct1)
  from t[THEN conjunct2] have nav: "fst (handleSubmit_mutate (Rejected not_found_error) True
        '' Buyer@Example.com '' fresh_world) =
      [Haptic ImpactMedium, Haptic NotifySuccess,
       RouterPush ''/(auth)/reset-password'' ''buyer@example.com'']"
    by (simp add: sanitizeEmail_example)
  from same[symmetric] nav have "fst (handleSubmit_mutate
        (Fulfilled 200 \<lparr>fp_success = True, fp_message = ''OTP sent''\<rparr>) True
        '' Buyer@Example.com '' fresh_world) =
      [Haptic ImpactMedium, Haptic NotifySuccess,
       RouterPush ''/(auth)/reset-password'' ''buyer@example.com'']"
    by (rule trans)
  with nav show ?thesis
    by (rule conjI)
qed

text \<open>
  C10. For every request made through the shared client that is rejected with status 401,
  the caller gets the normalised error (with status 401), the persisted session store is
  left exactly as it was (so \<open>isAuthenticated\<close> is unchanged), and the response
  interceptor has deleted the secure-store keys \<open>swuva-auth-token\<close> and \<open>swuva-auth\<close>;
  the deletes sit in a \<open>try\<close> whose \<open>catch\<close> ignores a throwing secure store, so they
  take effect whenever the secure store does not throw on these keys.
\<close>

theorem unauthorized_response_deletes_token:
  assumes "map_option er_status (ax_response err) = Some 401"
  shows "fst (api_request (Rejected err) w) = Inl (normalize_error err)
     \<and> status (normalize_error err) = 401
     \<and> auth (snd (api_request (Rejected err) w)) = auth w
     \<and> (\<not> rejects (secure w) ''swuva-auth-token'' \<and> \<not> rejects (secure w) ''swuva-auth'' \<longrightarrow>
          items (secure (snd (api_request (Rejected err) w))) ''swuva-auth-token'' = None
        \<and> items (secure (snd (api_request (Rejected err) w))) ''swuva-auth'' = None)"
  using assms
  by (auto simp add: api_request_def response_onRejected_def Let_def deleteItemAsync_def
      normalize_error_def or_number_def split: prod.splits sum.splits)

theorem unauthorized_response_deletes_token_witness:
  "items (secure signed_in_world) ''swuva-auth-token'' = Some ''mock-session-token''
   \<and> fst (api_request (Rejected unauthorized_error :: unit axios_outcome) signed_in_world)
       = Inl \<lparr>message = ''Unauthorized'', code = ''UNKNOWN_ERROR'', status = 401, errors = None\<rparr>
   \<and> items (secure (snd (api_request (Rejected unauthorized_error :: unit axios_outcome)
        signed_in_world))) ''swuva-auth-token'' = None
   \<and> isAuthenticated (auth (snd (api_request (Rejected unauthorized_error :: unit axios_outcome)
        signed_in_world)))"
proof -
  have h: "map_option er_status (ax_response unauthorized_error) = Some 401"
    by (simp add: unauthorized_error_def)
  have r: "\<not> rejects (secure signed_in_world) ''swuva-auth-token''
      \<and> \<not> rejects (secure signed_in_world) ''swuva-auth''"
    by (simp add: signed_in_world_def)
  have a: "items (secure signed_in_world) ''swuva-auth-token'' = Some ''mock-session-token''"
      "isAuthenticated (auth signed_in_world)"
    by (simp_all add: signed_in_world_def setAuth_def)
  have n: "normalize_error unauthorized_error =
      \<lparr>message = ''Unauthorized'', code = ''UNKNOWN_ERROR'', status = 401, errors = None\<rparr>"
    by (simp add: normalize_error_def unauthorized_error_def or_string_def or_number_def)
  let ?reply = "api_request (Rejected unauthorized_error :: unit axios_outcome) signed_in_world"
  have t: "fst ?reply = Inl (normalize_error unauthorized_error)
     \<and> status (normalize_error unauthorized_error) = 401
     \<and> auth (snd ?reply) = auth signed_in_world
     \<and> (\<not> rejects (secure signed_in_world) ''swuva-auth-token''
          \<and> \<not> rejects (secure signed_in_world) ''swuva-auth'' \<longrightarrow>
          items (secure (snd ?reply)) ''swuva-auth-token'' = None
        \<and> items (secure (snd ?reply)) ''swuva-auth'' = None)"
    by (rule unauthorized_response_deletes_token[OF h])
  from t n have 1: "fst (api_request (Rejected unauthorized_error :: unit axios_outcome)
        signed_in_world)
      = Inl \<lparr>message = ''Unauthorized'', code = ''UNKNOWN_ERROR'', status = 401, errors = None\<rparr>"
    by simp
  from t r have 2: "items (secure (snd (api_request
        (Rejected unauthorized_error :: unit axios_outcome) signed_in_world)))
        ''swuva-auth-token'' = None"
    by blast
  from t a(2) have 3: "isAuthenticated (auth (snd (api_request
        (Rejected unauthorized_error :: unit axios_outcome) signed_in_world)))"
    by simp
  from a(1) 1 2 3 show ?thesis
    by blast
qed

end
